theory Spec2Isabelle
  imports Main "HOL-Library.Log_Nat"
begin

section \<open>JavaScript numbers\<close>

text \<open>
  The handlers of \<^verbatim>\<open>src/index.js\<close> compute with JavaScript Numbers: the amount of the
  request body and the \<^verbatim>\<open>balance\<close> field of the Mongoose schema (\<^verbatim>\<open>type: Number\<close>) are
  IEEE-754 double-precision values. A Number is modelled by its value: a rational for a
  finite double, or one of the three special values. The two zeros of IEEE-754 are
  identified: every operation the handlers apply (truthiness, \<^verbatim>\<open><\<close>, \<^verbatim>\<open><=\<close>, \<^verbatim>\<open>+\<close>, \<^verbatim>\<open>-\<close>,
  \<^verbatim>\<open>===\<close>, conversion to a string) gives the same result on both.
\<close>

datatype number = Finite rat | PosInfinity | NegInfinity | NaN

text \<open>\<open>pow2 e\<close> is \<open>2\<close> to the integer power \<open>e\<close>.\<close>

definition pow2 :: "int \<Rightarrow> rat" where
  "pow2 e = (if 0 \<le> e then 2 ^ nat e else 1 / 2 ^ nat (- e))"

text \<open>
  The binary exponent of a positive rational \<open>q\<close>: the \<open>e\<close> with
  \<open>2\<^sup>e \<le> q < 2\<^sup>e\<^sup>+\<^sup>1\<close>. With \<open>q = a / b\<close> in lowest terms it is the difference of the
  bit lengths of \<open>a\<close> and \<open>b\<close>, or one less.
\<close>

definition binexp :: "rat \<Rightarrow> int" where
  "binexp q =
     (let k = bitlen (fst (quotient_of q)) - bitlen (snd (quotient_of q))
      in if pow2 k \<le> q then k else k - 1)"

text \<open>Rounding a rational to the nearest integer, ties to the even one.\<close>

definition round_half_even :: "rat \<Rightarrow> int" where
  "round_half_even r =
     (let f = \<lfloor>r\<rfloor>; d = r - of_int f
      in if d < 1 / 2 then f
         else if 1 / 2 < d then f + 1
         else if even f then f else f + 1)"

text \<open>
  \<open>round_double q\<close> is the double nearest to the exact value \<open>q\<close> (round to nearest, ties to
  even: the rounding of every JavaScript arithmetic operation). The spacing of the doubles
  around \<open>q\<close> is \<open>2\<^sup>u\<close> with \<open>u\<close> the binary exponent of \<open>|q|\<close> less the 52 fraction bits, and
  never below the subnormal spacing \<open>2\<^sup>-\<^sup>1\<^sup>0\<^sup>7\<^sup>4\<close>; a result of magnitude \<open>2\<^sup>1\<^sup>0\<^sup>2\<^sup>4\<close> or more,
  that is, of binary exponent 1024 or more, overflows to an infinity.
\<close>

definition round_double :: "rat \<Rightarrow> number" where
  "round_double q =
     (if q = 0 then Finite 0
      else
        let u = max (binexp \<bar>q\<bar> - 52) (- 1074);
            r = of_int (round_half_even (q / pow2 u)) * pow2 u
        in if 1024 \<le> binexp \<bar>r\<bar> then (if 0 < q then PosInfinity else NegInfinity)
           else Finite r)"

text \<open>The comparisons \<^verbatim>\<open><\<close> and \<^verbatim>\<open><=\<close> on Numbers: false whenever an operand is NaN.\<close>

fun num_lt :: "number \<Rightarrow> number \<Rightarrow> bool" where
  "num_lt NaN _ = False"
| "num_lt _ NaN = False"
| "num_lt (Finite x) (Finite y) = (x < y)"
| "num_lt _ NegInfinity = False"
| "num_lt PosInfinity _ = False"
| "num_lt NegInfinity _ = True"
| "num_lt _ PosInfinity = True"

fun num_le :: "number \<Rightarrow> number \<Rightarrow> bool" where
  "num_le NaN _ = False"
| "num_le _ NaN = False"
| "num_le (Finite x) (Finite y) = (x \<le> y)"
| "num_le NegInfinity _ = True"
| "num_le _ PosInfinity = True"
| "num_le _ NegInfinity = False"
| "num_le PosInfinity _ = False"

text \<open>Unary minus, \<^verbatim>\<open>+\<close> and \<^verbatim>\<open>-\<close> on Numbers.\<close>

fun num_neg :: "number \<Rightarrow> number" where
  "num_neg (Finite x) = Finite (- x)"
| "num_neg PosInfinity = NegInfinity"
| "num_neg NegInfinity = PosInfinity"
| "num_neg NaN = NaN"

fun num_add :: "number \<Rightarrow> number \<Rightarrow> number" where
  "num_add NaN _ = NaN"
| "num_add _ NaN = NaN"
| "num_add (Finite x) (Finite y) = round_double (x + y)"
| "num_add PosInfinity NegInfinity = NaN"
| "num_add NegInfinity PosInfinity = NaN"
| "num_add PosInfinity _ = PosInfinity"
| "num_add NegInfinity _ = NegInfinity"
| "num_add _ PosInfinity = PosInfinity"
| "num_add _ NegInfinity = NegInfinity"

definition num_sub :: "number \<Rightarrow> number \<Rightarrow> number" where
  "num_sub a b = num_add a (num_neg b)"


section \<open>Request values\<close>

text \<open>
  \<^verbatim>\<open>express.json()\<close> parses the request body, and the handler destructures
  \<^verbatim>\<open>fromUserId\<close>, \<^verbatim>\<open>toUserId\<close> and \<^verbatim>\<open>amount\<close> from it. Each of the three is any JSON
  value, or \<^verbatim>\<open>undefined\<close> when the body has no such key.
\<close>

datatype json =
    JUndefined
  | JNull
  | JBool bool
  | JNum number
  | JStr string
  | JArr "json list"
  | JObj "(string \<times> json) list"

record request =
  fromUserId :: json
  toUserId :: json
  amount :: json

text \<open>
  \<^verbatim>\<open>!v\<close> is true for the falsy values: \<^verbatim>\<open>undefined\<close>, \<^verbatim>\<open>null\<close>, \<^verbatim>\<open>false\<close>, the numbers
  zero and NaN, and the empty string. Arrays and objects are truthy.
\<close>

fun truthy :: "json \<Rightarrow> bool" where
  "truthy JUndefined = False"
| "truthy JNull = False"
| "truthy (JBool b) = b"
| "truthy (JNum n) = (n \<noteq> Finite 0 \<and> n \<noteq> NaN)"
| "truthy (JStr s) = (s \<noteq> [])"
| "truthy (JArr _) = True"
| "truthy (JObj _) = True"

text \<open>
  \<^verbatim>\<open>a === b\<close>: equal types and equal values for the primitive values (NaN differs from
  itself). An array or an object is equal only to itself, and two fields of a parsed body
  never hold the same one, so two arrays or two objects of the request are never \<^verbatim>\<open>===\<close>.
\<close>

fun strict_eq :: "json \<Rightarrow> json \<Rightarrow> bool" where
  "strict_eq JUndefined JUndefined = True"
| "strict_eq JNull JNull = True"
| "strict_eq (JBool a) (JBool b) = (a = b)"
| "strict_eq (JNum a) (JNum b) = (a = b \<and> a \<noteq> NaN)"
| "strict_eq (JStr a) (JStr b) = (a = b)"
| "strict_eq _ _ = False"

text \<open>
  The string of a Number in a template literal. Integral values of magnitude below
  \<open>10\<^sup>2\<^sup>1\<close> print as their decimal digits; the shortest-digits printing of the other
  finite values is a parameter.
\<close>

fun digits :: "nat \<Rightarrow> string" where
  "digits n =
     (if n < 10 then [char_of (48 + n)]
      else digits (n div 10) @ [char_of (48 + n mod 10)])"

declare digits.simps [simp del]

definition numberToString :: "(rat \<Rightarrow> string) \<Rightarrow> number \<Rightarrow> string" where
  "numberToString other n =
     (case n of
        NaN \<Rightarrow> ''NaN''
      | PosInfinity \<Rightarrow> ''Infinity''
      | NegInfinity \<Rightarrow> ''-Infinity''
      | Finite q \<Rightarrow>
          if of_int \<lfloor>q\<rfloor> = q \<and> \<bar>q\<bar> < 10 ^ 21
          then (if q < 0 then ''-'' else []) @ digits (nat \<bar>\<lfloor>q\<rfloor>\<bar>)
          else other q)"

section \<open>The users collection\<close>

text \<open>
  A document of the \<^verbatim>\<open>users\<close> collection, after \<^verbatim>\<open>userSchema\<close>: the \<^verbatim>\<open>_id\<close> the store
  assigns, \<^verbatim>\<open>name\<close> and \<^verbatim>\<open>balance\<close>.
\<close>

type_synonym objectid = string

record user =
  uid :: objectid
  name :: string
  balance :: number

text \<open>The calls a handler makes on the model \<^verbatim>\<open>User\<close>, in the order it makes them.\<close>

datatype storecall =
    FindById json
  | Save user
  | DeleteMany
  | InsertMany "(string \<times> number) list"

record db =
  users :: "user list"
  calls :: "storecall list"

text \<open>
  What the handlers take from outside the repository:
  \<^item> \<open>castObjectId\<close>: Mongoose's cast of the argument of \<^verbatim>\<open>findById\<close> to an ObjectId; \<open>Inl\<close>
    is the message of the CastError thrown for a malformed identifier;
  \<^item> \<open>fault\<close>: the failure (connectivity, timeout) of a store call, if any, by the number
    of store calls made before it; \<open>Some\<close> is the message of the error thrown;
  \<^item> \<open>newObjectId\<close>: the \<^verbatim>\<open>_id\<close> generated for the \<open>k\<close>-th document of an insertion;
  \<^item> \<open>printNumber\<close>: the printing of non-integral Numbers, see \<open>numberToString\<close>.
\<close>

record env =
  castObjectId :: "json \<Rightarrow> string + objectid"
  fault :: "nat \<Rightarrow> string option"
  newObjectId :: "nat \<Rightarrow> objectid"
  printNumber :: "rat \<Rightarrow> string"

text \<open>
  The schema's validators of \<^verbatim>\<open>balance\<close>: a Number (NaN does not cast) that passes
  \<^verbatim>\<open>min: 0\<close>; and of \<^verbatim>\<open>name\<close>: \<^verbatim>\<open>required\<close> rejects the empty string.
\<close>

definition valid_balance :: "number \<Rightarrow> bool" where
  "valid_balance b = num_le (Finite 0) b"

definition validation_error :: string where
  "validation_error = ''User validation failed''"

definition duplicate_key_error :: string where
  "duplicate_key_error = ''E11000 duplicate key error''"

text \<open>
  Modelled from the spec: the Account Store is the Mongoose model \<^verbatim>\<open>User\<close>, whose code is
  not in the repository. \<open>findById\<close> is the point lookup of section 4.2: it throws for an
  identifier that does not cast and for a failure of the store, and otherwise returns the
  document with that \<^verbatim>\<open>_id\<close>, or \<^verbatim>\<open>null\<close> (\<open>None\<close>).
\<close>

definition findById :: "env \<Rightarrow> db \<Rightarrow> json \<Rightarrow> (string + user option) \<times> db" where
  "findById e st v =
     (let st' = st\<lparr>calls := calls st @ [FindById v]\<rparr>
      in case castObjectId e v of
           Inl err \<Rightarrow> (Inl err, st')
         | Inr oid \<Rightarrow>
             (case fault e (length (calls st)) of
                Some err \<Rightarrow> (Inl err, st')
              | None \<Rightarrow> (Inr (find (\<lambda>u. uid u = oid) (users st)), st')))"

text \<open>
  Modelled from the spec: \<open>save\<close> persists the in-memory document, re-validating the
  \<^verbatim>\<open>min: 0\<close> constraint of the schema on \<^verbatim>\<open>balance\<close>; a violation makes the call throw and
  writes nothing (section 4.2: it fails, it does not clamp).
\<close>

definition save :: "env \<Rightarrow> db \<Rightarrow> user \<Rightarrow> (string + unit) \<times> db" where
  "save e st d =
     (let st' = st\<lparr>calls := calls st @ [Save d]\<rparr>
      in if \<not> valid_balance (balance d) then (Inl validation_error, st')
         else
           (case fault e (length (calls st)) of
              Some err \<Rightarrow> (Inl err, st')
            | None \<Rightarrow>
                (Inr (), st'\<lparr>users := map (\<lambda>u. if uid u = uid d then d else u) (users st)\<rparr>)))"

text \<open>\<^verbatim>\<open>User.deleteMany({})\<close> removes every document of the collection.\<close>

definition deleteMany :: "env \<Rightarrow> db \<Rightarrow> (string + unit) \<times> db" where
  "deleteMany e st =
     (let st' = st\<lparr>calls := calls st @ [DeleteMany]\<rparr>
      in case fault e (length (calls st)) of
           Some err \<Rightarrow> (Inl err, st')
         | None \<Rightarrow> (Inr (), st'\<lparr>users := []\<rparr>))"

text \<open>
  \<^verbatim>\<open>User.insertMany(docs)\<close> validates every document against the schema, gives each an
  \<^verbatim>\<open>_id\<close> and inserts them in order; it returns the documents created. The insertion
  fails on an \<^verbatim>\<open>_id\<close> that is already in the collection. A failed call is modelled as
  inserting nothing.
\<close>

definition insertMany :: "env \<Rightarrow> db \<Rightarrow> (string \<times> number) list \<Rightarrow> (string + user list) \<times> db" where
  "insertMany e st ds =
     (let st' = st\<lparr>calls := calls st @ [InsertMany ds]\<rparr>;
          docs = map (\<lambda>(k, (n, b)). \<lparr>uid = newObjectId e k, name = n, balance = b\<rparr>)
                   (enumerate 0 ds)
      in if \<not> list_all (\<lambda>(n, b). n \<noteq> [] \<and> valid_balance b) ds then (Inl validation_error, st')
         else
           (case fault e (length (calls st)) of
              Some err \<Rightarrow> (Inl err, st')
            | None \<Rightarrow>
                if \<not> distinct (map uid (users st @ docs)) then (Inl duplicate_key_error, st')
                else (Inr docs, st'\<lparr>users := users st @ docs\<rparr>)))"

section \<open>Responses\<close>

text \<open>
  \<^verbatim>\<open>res.status(s).json(b)\<close>: the status code and the body, which has one of four shapes
  in \<^verbatim>\<open>src/index.js\<close>.
\<close>

datatype body =
    Message string
  | ErrorBody string string
  | TransferBody string number number
  | UsersBody string "user list"

record response =
  status :: nat
  body :: body

section \<open>The handlers\<close>

text \<open>
  A handler is a function of the parameters, the state of the store and the request; it
  returns the response and the new state. One request is handled at a time: the
  interleaving of concurrent requests is not modelled.
\<close>

text \<open>\<^verbatim>\<open>POST /create-users\<close>, lines 46 to 64.\<close>

definition usersData :: "(string \<times> number) list" where
  "usersData = [(''Alice'', Finite 1000), (''Bob'', Finite 500)]"

definition create_users :: "env \<Rightarrow> db \<Rightarrow> response \<times> db" where
  "create_users e st =
     (case deleteMany e st of
        (Inl err, st1) \<Rightarrow>
          (\<lparr>status = 500, body = ErrorBody ''Error creating users'' err\<rparr>, st1)
      | (Inr _, st1) \<Rightarrow>
          (case insertMany e st1 usersData of
             (Inl err, st2) \<Rightarrow>
               (\<lparr>status = 500, body = ErrorBody ''Error creating users'' err\<rparr>, st2)
           | (Inr createdUsers, st2) \<Rightarrow>
               (\<lparr>status = 201, body = UsersBody ''Users created'' createdUsers\<rparr>, st2)))"

text \<open>
  \<^verbatim>\<open>POST /transfer\<close>, lines 71 to 127. \<open>caught\<close> is the \<^verbatim>\<open>catch\<close> block; \<open>transfer_try\<close>
  is the \<^verbatim>\<open>try\<close> block, entered once \<^verbatim>\<open>amount\<close> is known to be a Number; \<open>transfer\<close> is
  the handler, where the test \<^verbatim>\<open>typeof amount !== 'number'\<close> is the case distinction on
  \<open>amount\<close>.
\<close>

definition caught :: "string \<Rightarrow> response" where
  "caught err = \<lparr>status = 500, body = ErrorBody ''An error occurred during the transfer'' err\<rparr>"

definition transfer_message :: "env \<Rightarrow> number \<Rightarrow> user \<Rightarrow> user \<Rightarrow> string" where
  "transfer_message e amt fromUser toUser =
     ''Transferred $'' @ numberToString (printNumber e) amt @ '' from '' @ name fromUser
       @ '' to '' @ name toUser"

definition transfer_try :: "env \<Rightarrow> db \<Rightarrow> json \<Rightarrow> json \<Rightarrow> number \<Rightarrow> response \<times> db" where
  "transfer_try e st fromId toId amt =
     (case findById e st fromId of
        (Inl err, st1) \<Rightarrow> (caught err, st1)
      | (Inr fromUser, st1) \<Rightarrow>
          (case findById e st1 toId of
             (Inl err, st2) \<Rightarrow> (caught err, st2)
           | (Inr toUser, st2) \<Rightarrow>
               (case fromUser of
                  None \<Rightarrow> (\<lparr>status = 404, body = Message ''Sender account not found''\<rparr>, st2)
                | Some fu \<Rightarrow>
                    (case toUser of
                       None \<Rightarrow>
                         (\<lparr>status = 404, body = Message ''Receiver account not found''\<rparr>, st2)
                     | Some tu \<Rightarrow>
                         if num_lt (balance fu) amt
                         then (\<lparr>status = 400, body = Message ''Insufficient balance''\<rparr>, st2)
                         else
                           let fu' = fu\<lparr>balance := num_sub (balance fu) amt\<rparr>;
                               tu' = tu\<lparr>balance := num_add (balance tu) amt\<rparr>
                           in (case save e st2 fu' of
                                 (Inl err, st3) \<Rightarrow> (caught err, st3)
                               | (Inr _, st3) \<Rightarrow>
                                   (case save e st3 tu' of
                                      (Inl err, st4) \<Rightarrow> (caught err, st4)
                                    | (Inr _, st4) \<Rightarrow>
                                        (\<lparr>status = 200,
                                          body = TransferBody (transfer_message e amt fu' tu')
                                                   (balance fu') (balance tu')\<rparr>, st4)))))))"

definition transfer :: "env \<Rightarrow> db \<Rightarrow> request \<Rightarrow> response \<times> db" where
  "transfer e st req =
     (if \<not> truthy (fromUserId req) \<or> \<not> truthy (toUserId req) \<or> \<not> truthy (amount req)
      then (\<lparr>status = 400, body = Message ''Missing fromUserId, toUserId, or amount''\<rparr>, st)
      else
        (case amount req of
           JNum amt \<Rightarrow>
             if num_le amt (Finite 0)
             then (\<lparr>status = 400, body = Message ''Invalid transfer amount''\<rparr>, st)
             else if strict_eq (fromUserId req) (toUserId req)
             then (\<lparr>status = 400, body = Message ''Cannot transfer to the same account''\<rparr>, st)
             else transfer_try e st (fromUserId req) (toUserId req) amt
         | _ \<Rightarrow> (\<lparr>status = 400, body = Message ''Invalid transfer amount''\<rparr>, st)))"


section \<open>Failure kinds and the preconditions of a transfer\<close>

text \<open>
  The failure kinds of the specification (section 7) and the response of the handler that
  reports each: \<open>kind_of\<close> reads the kind off a response, \<open>category\<close> is the status code the
  specification's failure mapping (section 6) gives the kind.
\<close>

datatype kind =
    MissingField
  | InvalidAmount
  | SelfTransfer
  | SourceNotFound
  | DestinationNotFound
  | InsufficientFunds
  | OperationalFailure
  | Success

definition kind_of :: "response \<Rightarrow> kind option" where
  "kind_of r =
     (case body r of
        Message m \<Rightarrow>
          if m = ''Missing fromUserId, toUserId, or amount'' then Some MissingField
          else if m = ''Invalid transfer amount'' then Some InvalidAmount
          else if m = ''Cannot transfer to the same account'' then Some SelfTransfer
          else if m = ''Sender account not found'' then Some SourceNotFound
          else if m = ''Receiver account not found'' then Some DestinationNotFound
          else if m = ''Insufficient balance'' then Some InsufficientFunds
          else None
      | ErrorBody m err \<Rightarrow>
          if m = ''An error occurred during the transfer'' then Some OperationalFailure
          else None
      | TransferBody m a b \<Rightarrow> Some Success
      | UsersBody m us \<Rightarrow> None)"


text \<open>
  The account an identifier resolves to in the collection, if any: the identifier casts to
  an ObjectId and a document has it. \<open>no_fault e st k\<close>: the \<open>k\<close>-th store call from the
  state \<open>st\<close> on meets no failure of the store.
\<close>

definition resolve :: "env \<Rightarrow> db \<Rightarrow> json \<Rightarrow> user option" where
  "resolve e st v =
     (case castObjectId e v of
        Inl err \<Rightarrow> None
      | Inr oid \<Rightarrow> find (\<lambda>u. uid u = oid) (users st))"

definition no_fault :: "env \<Rightarrow> db \<Rightarrow> nat \<Rightarrow> bool" where
  "no_fault e st k = (fault e (length (calls st) + k) = None)"

text \<open>
  The three validation preconditions as the handler tests them (lines 75, 79 and 83), and
  the amount as the specification words it: a finite number strictly greater than zero.
\<close>

definition missing_field :: "request \<Rightarrow> bool" where
  "missing_field req =
     (\<not> truthy (fromUserId req) \<or> \<not> truthy (toUserId req) \<or> \<not> truthy (amount req))"

definition invalid_amount :: "request \<Rightarrow> bool" where
  "invalid_amount req = (case amount req of JNum n \<Rightarrow> num_le n (Finite 0) | _ \<Rightarrow> True)"

definition self_transfer :: "request \<Rightarrow> bool" where
  "self_transfer req = strict_eq (fromUserId req) (toUserId req)"

definition finite_positive :: "json \<Rightarrow> bool" where
  "finite_positive v = (case v of JNum (Finite q) \<Rightarrow> 0 < q | _ \<Rightarrow> False)"

text \<open>
  The six preconditions of section 4.1 as the specification words them, in their order,
  each with the failure kind of its violation:
  \<^enum> the two identifiers are present and non-empty, and the amount is present (a field is
    absent when the body has no such key);
  \<^enum> the amount is a finite number strictly greater than zero;
  \<^enum> the source identifier differs from the destination identifier;
  \<^enum> the source identifier resolves to an account;
  \<^enum> the destination identifier resolves to an account;
  \<^enum> the balance of the source account is greater than or equal to the amount.

  \<open>first_violated\<close> is the kind of the first precondition violated, if any.
\<close>

definition absent_or_empty :: "json \<Rightarrow> bool" where
  "absent_or_empty v = (v = JUndefined \<or> v = JStr [])"

definition spec_missing :: "request \<Rightarrow> bool" where
  "spec_missing req =
     (absent_or_empty (fromUserId req) \<or> absent_or_empty (toUserId req)
      \<or> amount req = JUndefined)"

definition spec_insufficient :: "env \<Rightarrow> db \<Rightarrow> request \<Rightarrow> bool" where
  "spec_insufficient e st req =
     (case (resolve e st (fromUserId req), amount req) of
        (Some fu, JNum amt) \<Rightarrow> \<not> num_le amt (balance fu)
      | _ \<Rightarrow> False)"

definition preconditions :: "env \<Rightarrow> db \<Rightarrow> request \<Rightarrow> (kind \<times> bool) list" where
  "preconditions e st req =
     [(MissingField, spec_missing req),
      (InvalidAmount, \<not> finite_positive (amount req)),
      (SelfTransfer, fromUserId req = toUserId req),
      (SourceNotFound, resolve e st (fromUserId req) = None),
      (DestinationNotFound, resolve e st (toUserId req) = None),
      (InsufficientFunds, spec_insufficient e st req)]"

definition first_violated_of :: "(kind \<times> bool) list \<Rightarrow> kind option" where
  "first_violated_of ps = map_option fst (find snd ps)"

definition first_violated :: "env \<Rightarrow> db \<Rightarrow> request \<Rightarrow> kind option" where
  "first_violated e st req = first_violated_of (preconditions e st req)"

text \<open>
  The preconditions as the handler enforces them: the six of the specification, except
  that a positive infinite amount does not violate the second (the handler has no
  finiteness test).
\<close>

definition enforced :: "env \<Rightarrow> db \<Rightarrow> request \<Rightarrow> (kind \<times> bool) list" where
  "enforced e st req =
     map (\<lambda>p. (fst p, snd p \<and> \<not> (fst p = InvalidAmount \<and> amount req = JNum PosInfinity)))
       (preconditions e st req)"

text \<open>
  The shapes of the fields: an identifier that is a string when the body has it, and a
  value that is not an array or an object.
\<close>

definition string_or_absent :: "json \<Rightarrow> bool" where
  "string_or_absent v = (case v of JUndefined \<Rightarrow> True | JStr s \<Rightarrow> True | _ \<Rightarrow> False)"

definition primitive :: "json \<Rightarrow> bool" where
  "primitive v = (case v of JArr xs \<Rightarrow> False | JObj kvs \<Rightarrow> False | _ \<Rightarrow> True)"

text \<open>
  What the two lookups of a transfer return, in the order the handler makes them (lines 89
  and 90): \<open>Inl\<close> is an error thrown, \<open>Inr None\<close> is \<^verbatim>\<open>null\<close>. \<open>lookups_return\<close>: neither
  lookup throws.
\<close>

definition source_lookup :: "env \<Rightarrow> db \<Rightarrow> request \<Rightarrow> string + user option" where
  "source_lookup e st req = fst (findById e st (fromUserId req))"

definition destination_lookup :: "env \<Rightarrow> db \<Rightarrow> request \<Rightarrow> string + user option" where
  "destination_lookup e st req =
     fst (findById e (snd (findById e st (fromUserId req))) (toUserId req))"

definition lookups_return :: "env \<Rightarrow> db \<Rightarrow> request \<Rightarrow> bool" where
  "lookups_return e st req =
     (case (source_lookup e st req, destination_lookup e st req) of
        (Inr fromUser, Inr toUser) \<Rightarrow> True
      | _ \<Rightarrow> False)"

text \<open>
  The documents a successful transfer saves (lines 108 and 109), the collection after a
  successful save of \<open>d\<close>, and the error, if any, that a save of \<open>d\<close> throws when it is the
  \<open>k\<close>-th store call from \<open>st\<close> on.
\<close>

definition debited :: "user \<Rightarrow> number \<Rightarrow> user" where
  "debited fu amt = fu\<lparr>balance := num_sub (balance fu) amt\<rparr>"

definition credited :: "user \<Rightarrow> number \<Rightarrow> user" where
  "credited tu amt = tu\<lparr>balance := num_add (balance tu) amt\<rparr>"

definition put :: "user \<Rightarrow> user list \<Rightarrow> user list" where
  "put d us = map (\<lambda>u. if uid u = uid d then d else u) us"

definition write_error :: "env \<Rightarrow> db \<Rightarrow> nat \<Rightarrow> user \<Rightarrow> string option" where
  "write_error e st k d =
     (if \<not> valid_balance (balance d) then Some validation_error
      else fault e (length (calls st) + k))"


text \<open>The invariant of the collection: every stored balance passes the schema.\<close>

definition store_ok :: "db \<Rightarrow> bool" where
  "store_ok st = list_all (\<lambda>u. valid_balance (balance u)) (users st)"

text \<open>A store call that writes a negative balance.\<close>

fun negative_write :: "storecall \<Rightarrow> bool" where
  "negative_write (Save d) = num_lt (balance d) (Finite 0)"
| "negative_write _ = False"

section \<open>A concrete store\<close>

text \<open>
  An instance of the parameters, for evaluating the handlers on concrete requests: the
  cast accepts the strings of 24 hexadecimal digits, in either case, and gives the
  identifier in lower case, as an ObjectId prints; this instance rejects every other
  value. No store call fails; the \<open>k\<close>-th generated identifier is \<open>k\<close> in 24 decimal
  digits.
\<close>

definition isHex :: "char \<Rightarrow> bool" where
  "isHex c = (c \<in> set ''0123456789abcdefABCDEF'')"

definition lowerHex :: "char \<Rightarrow> char" where
  "lowerHex c = (if c \<in> set ''ABCDEF'' then char_of (of_char c + (32::nat)) else c)"

definition castHex24 :: "json \<Rightarrow> string + objectid" where
  "castHex24 v =
     (case v of
        JStr s \<Rightarrow>
          if length s = 24 \<and> list_all isHex s then Inr (map lowerHex s)
          else Inl ''Cast to ObjectId failed''
      | _ \<Rightarrow> Inl ''Cast to ObjectId failed'')"

definition decimalId :: "nat \<Rightarrow> objectid" where
  "decimalId k = replicate (24 - length (digits k)) (CHR ''0'') @ digits k"

definition env0 :: env where
  "env0 = \<lparr>castObjectId = castHex24, fault = (\<lambda>k. None), newObjectId = decimalId,
           printNumber = (\<lambda>q. [])\<rparr>"

definition alice :: user where
  "alice = \<lparr>uid = ''000000000000000000000000'', name = ''Alice'', balance = Finite 1000\<rparr>"

definition bob :: user where
  "bob = \<lparr>uid = ''000000000000000000000001'', name = ''Bob'', balance = Finite 500\<rparr>"

definition seeded :: db where
  "seeded = \<lparr>users = [alice, bob], calls = []\<rparr>"

definition transfer150 :: request where
  "transfer150 = \<lparr>fromUserId = JStr (uid alice), toUserId = JStr (uid bob),
                  amount = JNum (Finite 150)\<rparr>"


text \<open>
  A collection with a large balance, and the store whose \<open>k\<close>-th call fails.
\<close>

definition large :: db where
  "large = \<lparr>users = [alice\<lparr>balance := Finite (10 ^ 16)\<rparr>, bob\<lparr>balance := Finite 2\<rparr>],
            calls = []\<rparr>"

definition env_fail :: "nat \<Rightarrow> env" where
  "env_fail k = env0\<lparr>fault := (\<lambda>i. if i = k then Some ''connection lost'' else None)\<rparr>"

text \<open>
  A collection whose first document has a letter in its identifier, and a request that
  names that document twice: in lower case as the source, in upper case as the
  destination. The two strings differ and cast to the same ObjectId.
\<close>

definition lettered :: db where
  "lettered = \<lparr>users = [alice\<lparr>uid := ''00000000000000000000000a''\<rparr>, bob], calls = []\<rparr>"

definition aliased :: request where
  "aliased = \<lparr>fromUserId = JStr ''00000000000000000000000a'',
              toUserId = JStr ''00000000000000000000000A'', amount = JNum (Finite 150)\<rparr>"

text \<open>A well-formed identifier that no document of the seeded collection has.\<close>

definition unknown_id :: objectid where
  "unknown_id = ''000000000000000000000009''"

text \<open>
  Requests for the order of the preconditions and for the self-transfer test: a transfer
  from an unknown account to Bob, one from an unknown account to a malformed identifier,
  and one that names Alice twice by two equal arrays.
\<close>

definition unknown_to_bob :: request where
  "unknown_to_bob =
     \<lparr>fromUserId = JStr unknown_id, toUserId = JStr (uid bob), amount = JNum (Finite 10)\<rparr>"

definition unknown_to_malformed :: request where
  "unknown_to_malformed =
     \<lparr>fromUserId = JStr unknown_id, toUserId = JStr ''abc'', amount = JNum (Finite 10)\<rparr>"

definition alice_twice :: request where
  "alice_twice = \<lparr>fromUserId = JArr [JStr (uid alice)], toUserId = JArr [JStr (uid alice)],
                  amount = JNum (Finite 150)\<rparr>"

section \<open>Properties of the numbers\<close>

lemma pow2_pos: "0 < pow2 e"
  by (simp add: pow2_def)

lemma round_half_even_nonneg: "0 \<le> r \<Longrightarrow> 0 \<le> round_half_even r"
  by (simp add: round_half_even_def Let_def)

text \<open>Rounding never turns a non-negative value into a negative one.\<close>

lemma round_double_nonneg:
  assumes q: "0 \<le> q"
  shows "num_le (Finite 0) (round_double q)"
proof (cases "q = 0")
  case True
  then show ?thesis by (simp add: round_double_def)
next
  case False
  define u where "u = max (binexp \<bar>q\<bar> - 52) (- 1074)"
  have "0 \<le> q / pow2 u"
    using q pow2_pos [of u] by simp
  then have "0 \<le> round_half_even (q / pow2 u)"
    by (rule round_half_even_nonneg)
  then have "0 \<le> of_int (round_half_even (q / pow2 u)) * pow2 u"
    using pow2_pos [of u] by simp
  with False q show ?thesis
    by (simp add: round_double_def Let_def u_def)
qed

lemma num_le_not_lt: "num_le a b \<Longrightarrow> \<not> num_lt b a"
  by (cases a; cases b) auto

lemma valid_balance_add:
  "valid_balance b \<Longrightarrow> num_lt (Finite 0) amt \<Longrightarrow> valid_balance (num_add b amt)"
  unfolding valid_balance_def
  by (cases b; cases amt) (auto intro: round_double_nonneg)

lemma sub_not_negative:
  "\<not> num_lt b amt \<Longrightarrow> num_lt (Finite 0) amt \<Longrightarrow> \<not> num_lt (num_sub b amt) (Finite 0)"
  unfolding num_sub_def
  by (cases b; cases amt) (auto intro!: num_le_not_lt round_double_nonneg)


lemma round_half_even_of_int: "round_half_even (of_int m) = m"
  by (simp add: round_half_even_def Let_def)

text \<open>The binary exponent of a positive integer, from its bit length.\<close>

lemma binexp_of_int:
  assumes "0 < a"
  shows "binexp (of_int a) = bitlen a - 1"
proof -
  from assms have b: "1 \<le> bitlen a"
    by (simp add: bitlen_alt_def)
  have "(2::int) ^ nat (bitlen a - 1) \<le> a"
    using bitlen_bounds [OF assms] by simp
  then have "(of_int ((2::int) ^ nat (bitlen a - 1)) :: rat) \<le> of_int a"
    by (simp only: of_int_le_iff)
  then have "pow2 (bitlen a - 1) \<le> of_int a"
    using b by (simp add: pow2_def)
  moreover have "bitlen 1 = 1"
    by (simp add: bitlen_alt_def)
  ultimately show ?thesis
    by (simp add: binexp_def Let_def)
qed

text \<open>
  The integers of magnitude up to \<open>2\<^sup>5\<^sup>3\<close> are doubles: rounding leaves them as they are.
\<close>

lemma round_double_of_int:
  assumes "\<bar>n\<bar> \<le> 2 ^ 53"
  shows "round_double (of_int n) = Finite (of_int n)"
proof (cases "n = 0")
  case True
  then show ?thesis by (simp add: round_double_def)
next
  case False
  define a where "a = \<bar>n\<bar>"
  have a: "0 < a" "a \<le> 2 ^ 53"
    using False assms by (simp_all add: a_def)
  have abs: "\<bar>of_int n :: rat\<bar> = of_int a"
    by (simp add: a_def)
  define u where "u = max (binexp \<bar>of_int n\<bar> - 52) (- 1074)"
  have b1: "1 \<le> bitlen a"
    using a by (simp add: bitlen_alt_def)
  have "a < 2 ^ nat 54"
    using a by simp
  then have b2: "bitlen a \<le> 54"
    by (simp add: bitlen_le_iff_power)
  have u: "u = bitlen a - 53"
    using b1 by (simp add: u_def abs binexp_of_int [OF a(1)])
  have small: "\<not> 1024 \<le> binexp \<bar>of_int n :: rat\<bar>"
    using b2 by (simp add: abs binexp_of_int [OF a(1)])
  have "\<exists>m. of_int n / pow2 u = of_int m"
  proof (cases "bitlen a = 54")
    case True
    then have "2 ^ 53 \<le> a"
      using bitlen_bounds [OF a(1)] by simp
    with a have "a = 2 ^ 53" by simp
    then have "n = 2 * 2 ^ 52 \<or> n = 2 * (- (2 ^ 52))"
      by (auto simp: a_def abs_if split: if_splits)
    moreover have "pow2 u = 2"
      using True by (simp add: u pow2_def)
    ultimately show ?thesis
      by (metis of_int_mult of_int_numeral nonzero_mult_div_cancel_left zero_neq_numeral)
  next
    case False
    with b2 have "u \<le> 0" by (simp add: u)
    then have "pow2 u = 1 / 2 ^ nat (- u)"
      by (cases "u = 0") (simp_all add: pow2_def)
    then have "of_int n / pow2 u = of_int (n * 2 ^ nat (- u))"
      by simp
    then show ?thesis ..
  qed
  then obtain m where m: "of_int n / pow2 u = of_int m" ..
  have "of_int (round_half_even (of_int n / pow2 u)) * pow2 u = (of_int n :: rat)"
    using pow2_pos [of u] by (simp add: m round_half_even_of_int) (simp add: m [symmetric])
  with small False show ?thesis
    by (simp add: round_double_def Let_def u_def [symmetric])
qed

section \<open>The course of a transfer\<close>

lemmas validation_defs = missing_field_def invalid_amount_def self_transfer_def

lemma transfer_validated:
  assumes "\<not> missing_field req" and "\<not> invalid_amount req" and "\<not> self_transfer req"
  shows "\<exists>amt. amount req = JNum amt \<and> num_lt (Finite 0) amt \<and>
           transfer e st req = transfer_try e st (fromUserId req) (toUserId req) amt"
proof -
  from assms(2) obtain amt where a: "amount req = JNum amt" and "\<not> num_le amt (Finite 0)"
    by (auto simp: invalid_amount_def split: json.splits)
  moreover from assms(1) a have "amt \<noteq> NaN"
    by (auto simp: missing_field_def)
  ultimately have "num_lt (Finite 0) amt"
    by (cases amt) auto
  with a assms show ?thesis
    by (auto simp: transfer_def validation_defs)
qed

lemma find_map_other:
  "x \<noteq> uid d \<Longrightarrow>
   find (\<lambda>u. uid u = x) (map (\<lambda>u. if uid u = uid d then d else u) us) = find (\<lambda>u. uid u = x) us"
  by (induction us) auto

lemma find_map_same:
  "find (\<lambda>u. uid u = uid d) us = Some u0 \<Longrightarrow>
   find (\<lambda>u. uid u = uid d) (map (\<lambda>u. if uid u = uid d then d else u) us) = Some d"
  by (induction us) (auto split: if_splits)

lemma find_uid: "find (\<lambda>u. uid u = x) us = Some u \<Longrightarrow> uid u = x \<and> u \<in> set us"
  by (induction us) (auto split: if_splits)

lemma source_lookup_Inr:
  "source_lookup e st req = Inr r \<longleftrightarrow>
     (\<exists>oid. castObjectId e (fromUserId req) = Inr oid \<and> no_fault e st 0 \<and>
            r = find (\<lambda>u. uid u = oid) (users st))"
  by (auto simp: source_lookup_def findById_def no_fault_def Let_def split: sum.splits option.splits)

lemma destination_lookup_Inr:
  "destination_lookup e st req = Inr r \<longleftrightarrow>
     (\<exists>oid. castObjectId e (toUserId req) = Inr oid \<and> no_fault e st 1 \<and>
            r = find (\<lambda>u. uid u = oid) (users st))"
  by (auto simp: destination_lookup_def findById_def no_fault_def Let_def split: sum.splits option.splits)

lemma lookups_resolve:
  assumes "source_lookup e st req = Inr r" and "destination_lookup e st req = Inr r'"
  shows "resolve e st (fromUserId req) = r \<and> resolve e st (toUserId req) = r'"
  using assms by (auto simp: source_lookup_Inr destination_lookup_Inr resolve_def)

lemma transfer_try_source_throws:
  "source_lookup e st req = Inl err \<Longrightarrow>
   transfer_try e st (fromUserId req) (toUserId req) amt =
     (caught err, st\<lparr>calls := calls st @ [FindById (fromUserId req)]\<rparr>)"
  by (auto simp: transfer_try_def source_lookup_def findById_def Let_def
           split: sum.splits option.splits)

lemma transfer_try_destination_throws:
  "source_lookup e st req = Inr r \<Longrightarrow> destination_lookup e st req = Inl err \<Longrightarrow>
   transfer_try e st (fromUserId req) (toUserId req) amt =
     (caught err, st\<lparr>calls := calls st @ [FindById (fromUserId req), FindById (toUserId req)]\<rparr>)"
  by (auto simp: transfer_try_def source_lookup_def destination_lookup_def findById_def Let_def
           split: sum.splits option.splits)

lemma transfer_try_found:
  assumes "source_lookup e st req = Inr r" and "destination_lookup e st req = Inr r'"
  shows "transfer_try e st (fromUserId req) (toUserId req) amt =
     (let st2 = st\<lparr>calls := calls st @ [FindById (fromUserId req), FindById (toUserId req)]\<rparr>
      in case r of
           None \<Rightarrow> (\<lparr>status = 404, body = Message ''Sender account not found''\<rparr>, st2)
         | Some fu \<Rightarrow>
             (case r' of
                None \<Rightarrow> (\<lparr>status = 404, body = Message ''Receiver account not found''\<rparr>, st2)
              | Some tu \<Rightarrow>
                  if num_lt (balance fu) amt
                  then (\<lparr>status = 400, body = Message ''Insufficient balance''\<rparr>, st2)
                  else
                    (case write_error e st 2 (debited fu amt) of
                       Some err \<Rightarrow>
                         (caught err, st2\<lparr>calls := calls st2 @ [Save (debited fu amt)]\<rparr>)
                     | None \<Rightarrow>
                         (case write_error e st 3 (credited tu amt) of
                            Some err \<Rightarrow>
                              (caught err,
                               st2\<lparr>calls := calls st2 @ [Save (debited fu amt), Save (credited tu amt)],
                                   users := put (debited fu amt) (users st)\<rparr>)
                          | None \<Rightarrow>
                              (\<lparr>status = 200,
                                body = TransferBody
                                  (transfer_message e amt (debited fu amt) (credited tu amt))
                                  (balance (debited fu amt)) (balance (credited tu amt))\<rparr>,
                               st2\<lparr>calls := calls st2 @ [Save (debited fu amt), Save (credited tu amt)],
                                   users := put (credited tu amt) (put (debited fu amt) (users st))\<rparr>)))))"
proof -
  from assms(1) obtain fid where f: "castObjectId e (fromUserId req) = Inr fid"
      "fault e (length (calls st)) = None" "r = find (\<lambda>u. uid u = fid) (users st)"
    by (auto simp: source_lookup_Inr no_fault_def)
  from assms(2) obtain tid where t: "castObjectId e (toUserId req) = Inr tid"
      "fault e (Suc (length (calls st))) = None" "r' = find (\<lambda>u. uid u = tid) (users st)"
    by (auto simp: destination_lookup_Inr no_fault_def)
  have n: "length (calls st) + 2 = Suc (Suc (length (calls st)))"
      "length (calls st) + 3 = Suc (Suc (Suc (length (calls st))))"
    by simp_all
  show ?thesis
    unfolding transfer_try_def findById_def save_def write_error_def debited_def credited_def
      put_def Let_def n
    by (simp add: f(1,2) t(1,2) f(3) [symmetric] t(3) [symmetric]
          split: option.split)
qed

lemma lookups_seeded:
  "source_lookup env0 seeded (transfer150\<lparr>amount := a\<rparr>) = Inr (Some alice)"
  "destination_lookup env0 seeded (transfer150\<lparr>amount := a\<rparr>) = Inr (Some bob)"
  by (simp_all add: source_lookup_def destination_lookup_def findById_def env0_def seeded_def
        transfer150_def castHex24_def isHex_def lowerHex_def alice_def bob_def)

section \<open>Validation failures\<close>

text \<open>
  Claim C3, as amended. When the two identifiers and the amount are truthy and the amount
  is not of type number, or is a number less than or equal to zero (it is then negative,
  \<open>-Infinity\<close> included), the handler answers 400 "Invalid transfer amount" and leaves the
  store as it was: no lookup, no write. A positive infinite amount is never reported as
  InvalidAmount: the handler has no finiteness test.
\<close>

theorem invalid_amount_rejected:
  "(\<not> missing_field req \<and> invalid_amount req \<longrightarrow>
      transfer e st req = (\<lparr>status = 400, body = Message ''Invalid transfer amount''\<rparr>, st)
      \<and> kind_of (fst (transfer e st req)) = Some InvalidAmount)
   \<and> (amount req = JNum PosInfinity \<longrightarrow>
        kind_of (fst (transfer e st req)) \<noteq> Some InvalidAmount)"
proof (intro conjI impI)
  assume a: "\<not> missing_field req \<and> invalid_amount req"
  then show "transfer e st req =
      (\<lparr>status = 400, body = Message ''Invalid transfer amount''\<rparr>, st)"
    by (auto simp: transfer_def validation_defs split: json.splits)
  then show "kind_of (fst (transfer e st req)) = Some InvalidAmount"
    by (simp add: kind_of_def)
next
  assume "amount req = JNum PosInfinity"
  then show "kind_of (fst (transfer e st req)) \<noteq> Some InvalidAmount"
    by (auto simp: transfer_def transfer_try_def findById_def save_def caught_def kind_of_def
          Let_def split: sum.splits option.splits prod.splits)
qed

text \<open>
  The theorem at a negative amount, at a string and at \<open>Infinity\<close>, on the seeded
  collection.
\<close>

theorem invalid_amount_rejected_witness:
  "transfer env0 seeded (transfer150\<lparr>amount := JNum (Finite (- 5))\<rparr>) =
     (\<lparr>status = 400, body = Message ''Invalid transfer amount''\<rparr>, seeded)
   \<and> transfer env0 seeded (transfer150\<lparr>amount := JStr ''ten''\<rparr>) =
     (\<lparr>status = 400, body = Message ''Invalid transfer amount''\<rparr>, seeded)
   \<and> kind_of (fst (transfer env0 seeded (transfer150\<lparr>amount := JNum PosInfinity\<rparr>)))
       \<noteq> Some InvalidAmount"
  using invalid_amount_rejected [of "transfer150\<lparr>amount := JNum (Finite (- 5))\<rparr>" env0 seeded]
    invalid_amount_rejected [of "transfer150\<lparr>amount := JStr ''ten''\<rparr>" env0 seeded]
    invalid_amount_rejected [of "transfer150\<lparr>amount := JNum PosInfinity\<rparr>" env0 seeded]
  by (simp add: validation_defs transfer150_def alice_def bob_def)

text \<open>
  Claim C3 as stated fails at the amount \<open>Infinity\<close> (the JSON number \<^verbatim>\<open>1e999\<close>): the
  identifiers are present and the amount is not a finite number, yet the handler looks both
  accounts up and answers "Insufficient balance". It fails at the amount zero too, which
  the test \<^verbatim>\<open>!amount\<close> of line 75 reports as a missing field.
\<close>

theorem infinite_amount_counterexample:
  "\<not> missing_field (transfer150\<lparr>amount := JNum PosInfinity\<rparr>)
   \<and> \<not> finite_positive (amount (transfer150\<lparr>amount := JNum PosInfinity\<rparr>))
   \<and> transfer env0 seeded (transfer150\<lparr>amount := JNum PosInfinity\<rparr>) =
       (\<lparr>status = 400, body = Message ''Insufficient balance''\<rparr>,
        seeded\<lparr>calls := [FindById (JStr (uid alice)), FindById (JStr (uid bob))]\<rparr>)
   \<and> \<not> finite_positive (amount (transfer150\<lparr>amount := JNum (Finite 0)\<rparr>))
   \<and> transfer env0 seeded (transfer150\<lparr>amount := JNum (Finite 0)\<rparr>) =
       (\<lparr>status = 400, body = Message ''Missing fromUserId, toUserId, or amount''\<rparr>, seeded)"
  by code_simp

section \<open>Insufficient funds\<close>

text \<open>
  Claim C4. When the request passes validation, both lookups return an account and the
  balance of the source is less than the amount, the handler answers 400 "Insufficient
  balance"; it has made the two lookups and no write, and the collection is as it was.
\<close>

theorem insufficient_funds_rejected:
  assumes "\<not> missing_field req" and "\<not> invalid_amount req" and "\<not> self_transfer req"
    and "source_lookup e st req = Inr (Some fu)"
    and "destination_lookup e st req = Inr (Some tu)"
    and "amount req = JNum amt" and "num_lt (balance fu) amt"
  shows "fst (transfer e st req) = \<lparr>status = 400, body = Message ''Insufficient balance''\<rparr>
         \<and> kind_of (fst (transfer e st req)) = Some InsufficientFunds
         \<and> users (snd (transfer e st req)) = users st
         \<and> calls (snd (transfer e st req)) =
             calls st @ [FindById (fromUserId req), FindById (toUserId req)]"
proof -
  from transfer_validated [OF assms(1-3)] assms(6)
  have "transfer e st req = transfer_try e st (fromUserId req) (toUserId req) amt"
    by auto
  then show ?thesis
    using assms(7) by (simp add: transfer_try_found [OF assms(4,5)] kind_of_def)
qed

text \<open>The theorem at a transfer of 1500 from Alice, who has 1000, to Bob.\<close>

theorem insufficient_funds_rejected_witness:
  "fst (transfer env0 seeded (transfer150\<lparr>amount := JNum (Finite 1500)\<rparr>)) =
     \<lparr>status = 400, body = Message ''Insufficient balance''\<rparr>
   \<and> users (snd (transfer env0 seeded (transfer150\<lparr>amount := JNum (Finite 1500)\<rparr>))) =
       [alice, bob]"
proof -
  let ?r = "transfer150\<lparr>amount := JNum (Finite 1500)\<rparr>"
  have h: "\<not> missing_field ?r" "\<not> invalid_amount ?r" "\<not> self_transfer ?r"
    by (simp_all add: validation_defs transfer150_def alice_def bob_def)
  have a: "amount ?r = JNum (Finite 1500)" "num_lt (balance alice) (Finite 1500)"
    by (simp_all add: alice_def)
  from insufficient_funds_rejected [OF h lookups_seeded a] show ?thesis
    by (simp add: seeded_def)
qed

section \<open>Failures of the store\<close>

text \<open>The arithmetic of a transfer of 150 on the seeded collection, and its validation.\<close>

lemma seeded_arith:
  "round_double 850 = Finite 850"
  "round_double 650 = Finite 650"
  using round_double_of_int [of 850] round_double_of_int [of 650]
  by simp_all

lemma transfer150_valid:
  "\<not> missing_field (transfer150\<lparr>amount := JNum (Finite 150)\<rparr>)"
  "\<not> invalid_amount (transfer150\<lparr>amount := JNum (Finite 150)\<rparr>)"
  "\<not> self_transfer (transfer150\<lparr>amount := JNum (Finite 150)\<rparr>)"
  by (simp_all add: validation_defs transfer150_def alice_def bob_def)

lemma transfer150_amount: "transfer150\<lparr>amount := JNum (Finite 150)\<rparr> = transfer150"
  by (simp add: transfer150_def)

text \<open>
  Claim C8, as amended. In a transfer that passes validation, a lookup that fails because
  the identifier is malformed (it does not cast to an ObjectId) is caught and reported as
  OperationalFailure: status 500 with the message of the cast error, the collection as it
  was. Only an identifier that casts and that no document has is a not-found rejection:
  status 404.
\<close>

theorem malformed_identifier_is_operational_failure:
  assumes v: "\<not> missing_field req" "\<not> invalid_amount req" "\<not> self_transfer req"
  shows "(castObjectId e (fromUserId req) = Inl err \<longrightarrow>
            fst (transfer e st req) =
              \<lparr>status = 500, body = ErrorBody ''An error occurred during the transfer'' err\<rparr>
            \<and> users (snd (transfer e st req)) = users st)
         \<and> (source_lookup e st req = Inr r \<and> castObjectId e (toUserId req) = Inl err \<longrightarrow>
            fst (transfer e st req) =
              \<lparr>status = 500, body = ErrorBody ''An error occurred during the transfer'' err\<rparr>
            \<and> users (snd (transfer e st req)) = users st)
         \<and> (source_lookup e st req = Inr None \<and> destination_lookup e st req = Inr r' \<longrightarrow>
            fst (transfer e st req) =
              \<lparr>status = 404, body = Message ''Sender account not found''\<rparr>)
         \<and> (source_lookup e st req = Inr (Some fu) \<and> destination_lookup e st req = Inr None \<longrightarrow>
            fst (transfer e st req) =
              \<lparr>status = 404, body = Message ''Receiver account not found''\<rparr>)"
proof -
  from transfer_validated [OF v] obtain amt where
    t: "transfer e st req = transfer_try e st (fromUserId req) (toUserId req) amt"
    by blast
  have s: "source_lookup e st req = Inl err" if "castObjectId e (fromUserId req) = Inl err"
    using that by (simp add: source_lookup_def findById_def)
  have d: "destination_lookup e st req = Inl err" if "castObjectId e (toUserId req) = Inl err"
    using that by (simp add: destination_lookup_def findById_def)
  show ?thesis
    by (auto simp: t transfer_try_source_throws [OF s] transfer_try_destination_throws [OF _ d]
          transfer_try_found caught_def)
qed

text \<open>
  The theorem at the malformed source identifier \<open>abc\<close> (500) and at a well-formed source
  identifier that no document has (404).
\<close>

theorem malformed_identifier_witness:
  "castObjectId env0 (JStr ''abc'') = Inl ''Cast to ObjectId failed''
   \<and> fst (transfer env0 seeded
       \<lparr>fromUserId = JStr ''abc'', toUserId = JStr (uid bob), amount = JNum (Finite 10)\<rparr>) =
       \<lparr>status = 500,
        body = ErrorBody ''An error occurred during the transfer'' ''Cast to ObjectId failed''\<rparr>
   \<and> source_lookup env0 seeded
       \<lparr>fromUserId = JStr unknown_id, toUserId = JStr (uid bob), amount = JNum (Finite 10)\<rparr>
       = Inr None
   \<and> fst (transfer env0 seeded
       \<lparr>fromUserId = JStr unknown_id, toUserId = JStr (uid bob), amount = JNum (Finite 10)\<rparr>) =
       \<lparr>status = 404, body = Message ''Sender account not found''\<rparr>"
proof -
  let ?m = "\<lparr>fromUserId = JStr ''abc'', toUserId = JStr (uid bob), amount = JNum (Finite 10)\<rparr>"
  let ?u = "\<lparr>fromUserId = JStr unknown_id, toUserId = JStr (uid bob), amount = JNum (Finite 10)\<rparr>"
  have m: "\<not> missing_field ?m" "\<not> invalid_amount ?m" "\<not> self_transfer ?m"
    by code_simp+
  have u: "\<not> missing_field ?u" "\<not> invalid_amount ?u" "\<not> self_transfer ?u"
    by code_simp+
  have c: "castObjectId env0 (fromUserId ?m) = Inl ''Cast to ObjectId failed''"
    by code_simp
  have l: "source_lookup env0 seeded ?u = Inr None"
      "destination_lookup env0 seeded ?u = Inr (Some bob)"
    by code_simp+
  from malformed_identifier_is_operational_failure [OF m, of env0 "''Cast to ObjectId failed''"]
    malformed_identifier_is_operational_failure [OF u, of env0 _ seeded _ "Some bob"]
    c l
  show ?thesis
    by simp
qed

text \<open>
  Claim C8 as stated fails at the malformed source identifier \<open>abc\<close>: the response is 500
  "An error occurred during the transfer", not the 404 that a well-formed identifier of no
  account gets.
\<close>

theorem malformed_identifier_counterexample:
  "castObjectId env0 (JStr ''abc'') = Inl ''Cast to ObjectId failed''
   \<and> transfer env0 seeded
       \<lparr>fromUserId = JStr ''abc'', toUserId = JStr (uid bob), amount = JNum (Finite 10)\<rparr> =
       (\<lparr>status = 500,
         body = ErrorBody ''An error occurred during the transfer'' ''Cast to ObjectId failed''\<rparr>,
        seeded\<lparr>calls := [FindById (JStr ''abc'')]\<rparr>)
   \<and> resolve env0 seeded (JStr unknown_id) = None
   \<and> fst (transfer env0 seeded
       \<lparr>fromUserId = JStr unknown_id, toUserId = JStr (uid bob), amount = JNum (Finite 10)\<rparr>) =
       \<lparr>status = 404, body = Message ''Sender account not found''\<rparr>"
  by code_simp

section \<open>Seeding\<close>

text \<open>
  Claim C10. Every call of the seeding handler that answers 201 has called \<^verbatim>\<open>deleteMany\<close>
  and then \<^verbatim>\<open>insertMany\<close>, and leaves a collection of exactly two documents with different
  identifiers: Alice with balance 1000 and Bob with balance 500, whatever the collection
  held before. The body lists the two.
\<close>

theorem create_users_seeds:
  assumes "status (fst (create_users e st)) = 201"
  shows "map (\<lambda>u. (name u, balance u)) (users (snd (create_users e st))) =
           [(''Alice'', Finite 1000), (''Bob'', Finite 500)]
         \<and> distinct (map uid (users (snd (create_users e st))))
         \<and> calls (snd (create_users e st)) = calls st @ [DeleteMany, InsertMany usersData]
         \<and> body (fst (create_users e st)) =
             UsersBody ''Users created'' (users (snd (create_users e st)))"
  using assms
  by (auto simp: create_users_def deleteMany_def insertMany_def usersData_def Let_def
        enumerate_eq_zip upt_rec [of 0] upt_rec [of 1] upt_rec [of "Suc 0"]
        split: option.splits if_splits)

text \<open>The theorem at a collection that held two other balances.\<close>

theorem create_users_seeds_witness:
  "status (fst (create_users env0 large)) = 201
   \<and> users (snd (create_users env0 large)) = [alice, bob]"
proof -
  have h: "status (fst (create_users env0 large)) = 201"
    by code_simp
  have u: "map uid (users (snd (create_users env0 large))) = [uid alice, uid bob]"
    by code_simp
  from create_users_seeds [OF h] u h show ?thesis
    by (cases "users (snd (create_users env0 large))")
      (auto simp: alice_def bob_def)
qed

section \<open>The invariant of the balances\<close>

lemma store_ok_put:
  "valid_balance (balance d) \<Longrightarrow> list_all (\<lambda>u. valid_balance (balance u)) us \<Longrightarrow>
   list_all (\<lambda>u. valid_balance (balance u)) (put d us)"
  by (induction us) (auto simp: put_def)

lemma write_error_None: "write_error e st k d = None \<Longrightarrow> valid_balance (balance d)"
  by (auto simp: write_error_def split: if_splits)

lemma transfer_rejected_early:
  "missing_field req \<or> invalid_amount req \<or> self_transfer req \<Longrightarrow>
   snd (transfer e st req) = st"
  by (auto simp: transfer_def validation_defs split: json.splits)

lemma store_ok_transfer:
  assumes ok: "store_ok st"
  shows "store_ok (snd (transfer e st req))
         \<and> \<not> list_ex negative_write (drop (length (calls st)) (calls (snd (transfer e st req))))"
proof (cases "missing_field req \<or> invalid_amount req \<or> self_transfer req")
  case True
  with ok show ?thesis
    by (simp add: transfer_rejected_early)
next
  case False
  then have v: "\<not> missing_field req" "\<not> invalid_amount req" "\<not> self_transfer req"
    by simp_all
  from transfer_validated [OF v] obtain amt where pos: "num_lt (Finite 0) amt"
    and t: "transfer e st req = transfer_try e st (fromUserId req) (toUserId req) amt"
    by blast
  show ?thesis
  proof (cases "source_lookup e st req")
    case (Inl err)
    from ok show ?thesis
      by (simp add: t transfer_try_source_throws [OF Inl] store_ok_def)
  next
    case (Inr r)
    note src = this
    show ?thesis
    proof (cases "destination_lookup e st req")
      case (Inl err)
      from ok show ?thesis
        by (simp add: t transfer_try_destination_throws [OF src Inl] store_ok_def)
    next
      case (Inr r')
      note dst = this
      show ?thesis
      proof (cases "\<exists>fu tu. r = Some fu \<and> r' = Some tu \<and> \<not> num_lt (balance fu) amt")
        case False
        have "snd (transfer e st req) =
                st\<lparr>calls := calls st @ [FindById (fromUserId req), FindById (toUserId req)]\<rparr>"
        proof (cases r)
          case None
          then show ?thesis
            by (simp add: t transfer_try_found [OF src dst])
        next
          case (Some fu)
          note fu = this
          show ?thesis
          proof (cases r')
            case None
            then show ?thesis
              by (simp add: t transfer_try_found [OF src dst] fu)
          next
            case (Some tu)
            with False fu have "num_lt (balance fu) amt"
              by simp
            then show ?thesis
              by (simp add: t transfer_try_found [OF src dst] fu Some)
          qed
        qed
        with ok show ?thesis
          by (simp add: store_ok_def)
      next
        case True
        then obtain fu tu where r: "r = Some fu" "r' = Some tu"
          and enough: "\<not> num_lt (balance fu) amt"
          by blast
        from dst obtain tid where "find (\<lambda>u. uid u = tid) (users st) = Some tu"
          by (auto simp: destination_lookup_Inr r)
        then have "tu \<in> set (users st)"
          by (rule find_uid [THEN conjunct2])
        with ok have "valid_balance (balance tu)"
          by (simp add: store_ok_def list_all_iff)
        then have "valid_balance (balance (credited tu amt))"
          using pos by (simp add: credited_def valid_balance_add)
        then have c: "\<not> num_lt (balance (credited tu amt)) (Finite 0)"
          by (simp add: valid_balance_def num_le_not_lt)
        have d: "\<not> num_lt (balance (debited fu amt)) (Finite 0)"
          using enough pos by (simp add: debited_def sub_not_negative)
        note tf = transfer_try_found [OF src dst, unfolded r, of amt]
        show ?thesis
        proof (cases "write_error e st 2 (debited fu amt)")
          case (Some err)
          with ok d enough show ?thesis
            by (simp add: t tf store_ok_def)
        next
          case None
          note w1 = this
          from ok write_error_None [OF w1]
          have p1: "list_all (\<lambda>u. valid_balance (balance u)) (put (debited fu amt) (users st))"
            by (simp add: store_ok_def store_ok_put)
          show ?thesis
          proof (cases "write_error e st 3 (credited tu amt)")
            case (Some err)
            with p1 c d enough w1 show ?thesis
              by (simp add: t tf store_ok_def)
          next
            case None
            from p1 write_error_None [OF None]
            have "list_all (\<lambda>u. valid_balance (balance u))
                    (put (credited tu amt) (put (debited fu amt) (users st)))"
              by (simp add: store_ok_put)
            with c d enough w1 None show ?thesis
              by (simp add: t tf store_ok_def)
          qed
        qed
      qed
    qed
  qed
qed


lemma store_ok_create_users: "store_ok st \<Longrightarrow> store_ok (snd (create_users e st))"
  by (auto simp: create_users_def deleteMany_def insertMany_def usersData_def Let_def store_ok_def
        valid_balance_def enumerate_eq_zip upt_rec [of 0] upt_rec [of 1] upt_rec [of "Suc 0"]
        split: option.splits if_splits)

text \<open>
  Claim C5. On a collection whose balances are all non-negative, the transfer handler
  leaves a collection whose balances are all non-negative, and no save it makes carries a
  negative balance: the debit is made only when the balance is not below the amount, and
  the credit adds a positive amount. The seeding handler keeps the invariant too. A save
  of a document whose balance does not pass \<^verbatim>\<open>min: 0\<close> throws the validation error and
  leaves the collection as it was: it rejects, it does not clamp.
\<close>

theorem balances_stay_non_negative:
  assumes "store_ok st"
  shows "store_ok (snd (transfer e st req))
         \<and> \<not> list_ex negative_write (drop (length (calls st)) (calls (snd (transfer e st req))))
         \<and> store_ok (snd (create_users e st))
         \<and> (\<not> valid_balance (balance d) \<longrightarrow>
              fst (save e st d) = Inl validation_error \<and> users (snd (save e st d)) = users st)"
  using store_ok_transfer [OF assms] store_ok_create_users [OF assms]
  by (simp add: save_def)

text \<open>
  The theorem on the seeded collection, with a save of Alice at balance \<open>-1\<close>.
\<close>

theorem balances_stay_non_negative_witness:
  "store_ok seeded
   \<and> store_ok (snd (transfer env0 seeded transfer150))
   \<and> \<not> valid_balance (balance (alice\<lparr>balance := Finite (- 1)\<rparr>))
   \<and> fst (save env0 seeded (alice\<lparr>balance := Finite (- 1)\<rparr>)) = Inl validation_error
   \<and> users (snd (save env0 seeded (alice\<lparr>balance := Finite (- 1)\<rparr>))) = users seeded"
proof -
  have h: "store_ok seeded"
    by (simp add: store_ok_def seeded_def alice_def bob_def valid_balance_def)
  have n: "\<not> valid_balance (balance (alice\<lparr>balance := Finite (- 1)\<rparr>))"
    by (simp add: valid_balance_def)
  from balances_stay_non_negative [OF h, of env0 transfer150 "alice\<lparr>balance := Finite (- 1)\<rparr>"] h n
  show ?thesis
    by simp
qed

section \<open>A successful transfer\<close>






section \<open>Self-transfer\<close>

lemma strict_eq_primitive:
  "primitive a \<Longrightarrow> truthy a \<Longrightarrow> strict_eq a b = (a = b)"
  by (cases a; cases b) (auto simp: primitive_def)

lemma strict_eq_compound: "\<not> primitive a \<Longrightarrow> \<not> strict_eq a b"
  by (cases a; cases b) (auto simp: primitive_def)

lemma transfer_try_calls: "calls (snd (transfer_try e st f t amt)) \<noteq> calls st"
  by (auto simp: transfer_try_def findById_def save_def Let_def
        split: sum.splits option.splits prod.splits)

lemma transfer_try_not_self:
  "kind_of (fst (transfer_try e st f t amt)) \<noteq> Some SelfTransfer"
  by (auto simp: transfer_try_def findById_def save_def caught_def kind_of_def Let_def
        split: sum.splits option.splits prod.splits)

text \<open>
  Claim C6, as amended. When the identifiers and the amount pass the two earlier
  validations and the two identifiers are equal strings, numbers or booleans, the handler
  answers 400 "Cannot transfer to the same account" whatever the store holds, and returns
  the store as it was: it makes no lookup. The handler compares with \<^verbatim>\<open>===\<close>, under which an
  array or an object equals no other one: when the source identifier is an array or an
  object the response is never SelfTransfer, and the handler has called the store.
\<close>

theorem self_transfer_rejected:
  assumes "\<not> missing_field req" and "\<not> invalid_amount req"
  shows "(fromUserId req = toUserId req \<and> primitive (fromUserId req) \<longrightarrow>
            transfer e st req =
              (\<lparr>status = 400, body = Message ''Cannot transfer to the same account''\<rparr>, st)
            \<and> kind_of (fst (transfer e st req)) = Some SelfTransfer)
         \<and> (\<not> primitive (fromUserId req) \<longrightarrow>
            kind_of (fst (transfer e st req)) \<noteq> Some SelfTransfer
            \<and> calls (snd (transfer e st req)) \<noteq> calls st)"
proof (intro conjI impI)
  assume a: "fromUserId req = toUserId req \<and> primitive (fromUserId req)"
  from a have eq: "fromUserId req = toUserId req" and pr: "primitive (fromUserId req)"
    by blast+
  from assms(1) have tr: "truthy (fromUserId req)"
    by (simp add: missing_field_def)
  from strict_eq_primitive [OF pr tr, of "toUserId req"] eq have "self_transfer req"
    unfolding self_transfer_def by blast
  with assms show "transfer e st req =
      (\<lparr>status = 400, body = Message ''Cannot transfer to the same account''\<rparr>, st)"
    by (auto simp: transfer_def validation_defs split: json.splits)
  then show "kind_of (fst (transfer e st req)) = Some SelfTransfer"
    by (simp add: kind_of_def)
next
  assume "\<not> primitive (fromUserId req)"
  then have "\<not> self_transfer req"
    by (simp add: self_transfer_def strict_eq_compound)
  from transfer_validated [OF assms this] obtain amt where
    t: "transfer e st req = transfer_try e st (fromUserId req) (toUserId req) amt"
    by blast
  show "kind_of (fst (transfer e st req)) \<noteq> Some SelfTransfer"
    by (simp add: t transfer_try_not_self)
  show "calls (snd (transfer e st req)) \<noteq> calls st"
    by (simp add: t transfer_try_calls)
qed

text \<open>
  The theorem at a transfer of 150 from Alice to Alice, named by her identifier, and at
  the request that names her by two equal arrays.
\<close>

theorem self_transfer_rejected_witness:
  "transfer env0 seeded (transfer150\<lparr>toUserId := JStr (uid alice)\<rparr>) =
       (\<lparr>status = 400, body = Message ''Cannot transfer to the same account''\<rparr>, seeded)
   \<and> kind_of (fst (transfer env0 seeded alice_twice)) \<noteq> Some SelfTransfer
   \<and> calls (snd (transfer env0 seeded alice_twice)) \<noteq> calls seeded"
proof -
  let ?r = "transfer150\<lparr>toUserId := JStr (uid alice)\<rparr>"
  have h: "\<not> missing_field ?r" "\<not> invalid_amount ?r"
    by (simp_all add: validation_defs transfer150_def alice_def)
  have p: "fromUserId ?r = toUserId ?r \<and> primitive (fromUserId ?r)"
    by (simp add: transfer150_def primitive_def)
  have g: "\<not> missing_field alice_twice" "\<not> invalid_amount alice_twice"
      "\<not> primitive (fromUserId alice_twice)"
    by (simp_all add: validation_defs alice_twice_def primitive_def)
  from self_transfer_rejected [OF h, of env0 seeded] p
    self_transfer_rejected [OF g(1,2), of env0 seeded] g(3)
  show ?thesis
    by (simp add: primitive_def transfer150_def)
qed

text \<open>
  Claim C6 as stated fails at two equal array identifiers: the amount passes validation
  and the source identifier equals the destination identifier, yet the response is not
  SelfTransfer and the handler has called \<^verbatim>\<open>findById\<close>.
\<close>

theorem equal_arrays_counterexample:
  "\<not> missing_field alice_twice \<and> \<not> invalid_amount alice_twice
   \<and> fromUserId alice_twice = toUserId alice_twice
   \<and> kind_of (fst (transfer env0 seeded alice_twice)) \<noteq> Some SelfTransfer
   \<and> calls (snd (transfer env0 seeded alice_twice)) \<noteq> calls seeded"
  by code_simp

section \<open>Status codes\<close>



section \<open>The order of the preconditions\<close>

text \<open>
  The order of the handler's own tests, and the agreement of each test with the
  precondition of the specification on the requests of the amended claim.
\<close>

lemma handler_order:
  "(if \<not> missing_field req \<and> \<not> invalid_amount req \<and> \<not> self_transfer req
       \<and> \<not> lookups_return e st req
    then kind_of (fst (transfer e st req)) = Some OperationalFailure
    else (case (if missing_field req then Some MissingField
                else if invalid_amount req then Some InvalidAmount
                else if self_transfer req then Some SelfTransfer
                else if resolve e st (fromUserId req) = None then Some SourceNotFound
                else if resolve e st (toUserId req) = None then Some DestinationNotFound
                else if (case (resolve e st (fromUserId req), amount req) of
                           (Some fu, JNum amt) \<Rightarrow> num_lt (balance fu) amt
                         | _ \<Rightarrow> False) then Some InsufficientFunds
                else None) of
            Some k \<Rightarrow> kind_of (fst (transfer e st req)) = Some k
          | None \<Rightarrow> kind_of (fst (transfer e st req)) = Some Success
                     \<or> kind_of (fst (transfer e st req)) = Some OperationalFailure))"
proof (cases "missing_field req \<or> invalid_amount req \<or> self_transfer req")
  case True
  then show ?thesis
    by (auto simp: transfer_def validation_defs kind_of_def split: json.splits)
next
  case False
  then have v: "\<not> missing_field req" "\<not> invalid_amount req" "\<not> self_transfer req"
    by simp_all
  from transfer_validated [OF v] obtain amt where amt: "amount req = JNum amt"
    and t: "transfer e st req = transfer_try e st (fromUserId req) (toUserId req) amt"
    by blast
  show ?thesis
  proof (cases "source_lookup e st req")
    case (Inl err)
    then show ?thesis
      using v
      by (simp add: t transfer_try_source_throws [OF Inl] lookups_return_def caught_def
            kind_of_def)
  next
    case (Inr r)
    note src = this
    show ?thesis
    proof (cases "destination_lookup e st req")
      case (Inl err)
      then show ?thesis
        using v src
        by (simp add: t transfer_try_destination_throws [OF src Inl] lookups_return_def
              caught_def kind_of_def)
    next
      case (Inr r')
      from lookups_resolve [OF src Inr] show ?thesis
        using v src Inr amt
        by (auto simp: t transfer_try_found [OF src Inr] lookups_return_def caught_def
              kind_of_def Let_def split: option.splits)
    qed
  qed
qed

lemma not_le_iff_lt: "a \<noteq> NaN \<Longrightarrow> b \<noteq> NaN \<Longrightarrow> (\<not> num_le a b) = num_lt b a"
  by (cases a; cases b) auto

lemma valid_balance_not_NaN: "valid_balance b \<Longrightarrow> b \<noteq> NaN"
  by (auto simp: valid_balance_def)

lemma resolve_store_ok:
  "store_ok st \<Longrightarrow> resolve e st v = Some u \<Longrightarrow> valid_balance (balance u)"
  by (auto simp: resolve_def store_ok_def list_all_iff split: sum.splits
        dest: find_uid [THEN conjunct2])

lemma spec_missing_iff:
  assumes "string_or_absent (fromUserId req)" and "string_or_absent (toUserId req)"
    and "amount req = JUndefined \<or> truthy (amount req)"
  shows "spec_missing req = missing_field req"
  using assms
  by (cases "fromUserId req"; cases "toUserId req")
    (auto simp: spec_missing_def missing_field_def absent_or_empty_def string_or_absent_def)

lemma invalid_amount_iff:
  assumes "truthy (amount req)"
  shows "invalid_amount req =
           (\<not> finite_positive (amount req) \<and> amount req \<noteq> JNum PosInfinity)"
proof (cases "amount req")
  case (JNum n)
  with assms show ?thesis
    by (cases n) (auto simp: invalid_amount_def finite_positive_def)
qed (simp_all add: invalid_amount_def finite_positive_def)

lemma self_transfer_iff:
  assumes "string_or_absent (fromUserId req)" and "truthy (fromUserId req)"
  shows "self_transfer req = (fromUserId req = toUserId req)"
  using assms
  by (cases "fromUserId req"; cases "toUserId req")
    (auto simp: self_transfer_def string_or_absent_def)

lemma spec_insufficient_iff:
  assumes "store_ok st" and "truthy (amount req)"
  shows "spec_insufficient e st req =
           (case (resolve e st (fromUserId req), amount req) of
              (Some fu, JNum amt) \<Rightarrow> num_lt (balance fu) amt
            | _ \<Rightarrow> False)"
proof (cases "resolve e st (fromUserId req)")
  case None
  then show ?thesis by (simp add: spec_insufficient_def)
next
  case (Some fu)
  from resolve_store_ok [OF assms(1) Some] have b: "balance fu \<noteq> NaN"
    by (rule valid_balance_not_NaN)
  show ?thesis
  proof (cases "amount req")
    case (JNum amt)
    with assms(2) have "amt \<noteq> NaN" by simp
    with b Some JNum show ?thesis
      by (simp add: spec_insufficient_def not_le_iff_lt)
  qed (simp_all add: spec_insufficient_def Some)
qed

lemma first_violated_enforced:
  assumes ids: "string_or_absent (fromUserId req)" "string_or_absent (toUserId req)"
    and amt: "amount req = JUndefined \<or> truthy (amount req)"
    and ok: "store_ok st"
  shows "first_violated_of (enforced e st req) =
           (if missing_field req then Some MissingField
            else if invalid_amount req then Some InvalidAmount
            else if self_transfer req then Some SelfTransfer
            else if resolve e st (fromUserId req) = None then Some SourceNotFound
            else if resolve e st (toUserId req) = None then Some DestinationNotFound
            else if (case (resolve e st (fromUserId req), amount req) of
                       (Some fu, JNum amt) \<Rightarrow> num_lt (balance fu) amt
                     | _ \<Rightarrow> False) then Some InsufficientFunds
            else None)"
    and "(first_violated_of (take 3 (enforced e st req)) = None) =
           (\<not> missing_field req \<and> \<not> invalid_amount req \<and> \<not> self_transfer req)"
proof -
  note m = spec_missing_iff [OF ids amt]
  have e: "enforced e st req =
     [(MissingField, missing_field req),
      (InvalidAmount, \<not> finite_positive (amount req) \<and> amount req \<noteq> JNum PosInfinity),
      (SelfTransfer, fromUserId req = toUserId req),
      (SourceNotFound, resolve e st (fromUserId req) = None),
      (DestinationNotFound, resolve e st (toUserId req) = None),
      (InsufficientFunds, spec_insufficient e st req)]"
    by (simp add: enforced_def preconditions_def m)
  show "first_violated_of (enforced e st req) =
           (if missing_field req then Some MissingField
            else if invalid_amount req then Some InvalidAmount
            else if self_transfer req then Some SelfTransfer
            else if resolve e st (fromUserId req) = None then Some SourceNotFound
            else if resolve e st (toUserId req) = None then Some DestinationNotFound
            else if (case (resolve e st (fromUserId req), amount req) of
                       (Some fu, JNum amt) \<Rightarrow> num_lt (balance fu) amt
                     | _ \<Rightarrow> False) then Some InsufficientFunds
            else None)"
  proof (cases "missing_field req")
    case True
    then show ?thesis by (simp add: e first_violated_of_def)
  next
    case False
    then have t: "truthy (amount req)" "truthy (fromUserId req)"
      by (simp_all add: missing_field_def)
    note i = invalid_amount_iff [OF t(1)]
    note s = self_transfer_iff [OF ids(1) t(2)]
    note f = spec_insufficient_iff [OF ok t(1), of e]
    from False show ?thesis
      unfolding e first_violated_of_def i s f [symmetric]
      by auto
  qed
  show "(first_violated_of (take 3 (enforced e st req)) = None) =
           (\<not> missing_field req \<and> \<not> invalid_amount req \<and> \<not> self_transfer req)"
  proof (cases "missing_field req")
    case True
    then show ?thesis by (simp add: e first_violated_of_def)
  next
    case False
    then have t: "truthy (amount req)" "truthy (fromUserId req)"
      by (simp_all add: missing_field_def)
    note i = invalid_amount_iff [OF t(1)]
    note s = self_transfer_iff [OF ids(1) t(2)]
    from False show ?thesis
      unfolding e first_violated_of_def i s
      by auto
  qed
qed

text \<open>
  Claim C2, as amended. Take a transfer call whose identifiers are strings when the body
  has them, whose amount, when the body has it, is truthy (not zero, NaN, \<^verbatim>\<open>false\<close>,
  \<^verbatim>\<open>null\<close> or the empty string), on a collection whose balances pass the schema. The six
  preconditions of the specification are evaluated in the order MissingField,
  InvalidAmount, SelfTransfer, SourceNotFound, DestinationNotFound, InsufficientFunds, and
  the failure reported is that of the first one violated, whatever the later ones are,
  with two provisos. A positive infinite amount does not violate the amount precondition.
  And the handler makes both lookups before it tests either result: when none of the
  three validation preconditions is violated and a lookup throws, the response is
  OperationalFailure, whatever the other lookup finds. When no precondition is violated
  the response is Success, or OperationalFailure when a save throws.
\<close>

theorem first_failure_wins:
  assumes ids: "string_or_absent (fromUserId req)" "string_or_absent (toUserId req)"
    and amt: "amount req = JUndefined \<or> truthy (amount req)"
    and ok: "store_ok st"
  shows "if first_violated_of (take 3 (enforced e st req)) = None \<and> \<not> lookups_return e st req
         then kind_of (fst (transfer e st req)) = Some OperationalFailure
         else (case first_violated_of (enforced e st req) of
                 Some k \<Rightarrow> kind_of (fst (transfer e st req)) = Some k
               | None \<Rightarrow> kind_of (fst (transfer e st req)) = Some Success
                          \<or> kind_of (fst (transfer e st req)) = Some OperationalFailure)"
  using handler_order [of req e st]
  unfolding first_violated_enforced [OF ids amt ok]
  by simp

text \<open>
  The theorem at an unknown source with an existing destination (SourceNotFound), at an
  unknown source with a malformed destination (OperationalFailure), and at an infinite
  amount (InsufficientFunds).
\<close>

theorem first_failure_wins_witness:
  "first_violated_of (enforced env0 seeded unknown_to_bob) = Some SourceNotFound
   \<and> kind_of (fst (transfer env0 seeded unknown_to_bob)) = Some SourceNotFound
   \<and> first_violated_of (take 3 (enforced env0 seeded unknown_to_malformed)) = None
   \<and> \<not> lookups_return env0 seeded unknown_to_malformed
   \<and> kind_of (fst (transfer env0 seeded unknown_to_malformed)) = Some OperationalFailure
   \<and> first_violated_of (enforced env0 seeded (transfer150\<lparr>amount := JNum PosInfinity\<rparr>))
       = Some InsufficientFunds
   \<and> kind_of (fst (transfer env0 seeded (transfer150\<lparr>amount := JNum PosInfinity\<rparr>)))
       = Some InsufficientFunds"
proof -
  let ?i = "transfer150\<lparr>amount := JNum PosInfinity\<rparr>"
  have ok: "store_ok seeded"
    by (simp add: store_ok_def seeded_def alice_def bob_def valid_balance_def)
  have b: "string_or_absent (fromUserId unknown_to_bob)"
      "string_or_absent (toUserId unknown_to_bob)"
      "amount unknown_to_bob = JUndefined \<or> truthy (amount unknown_to_bob)"
    by (simp_all add: unknown_to_bob_def string_or_absent_def)
  have m: "string_or_absent (fromUserId unknown_to_malformed)"
      "string_or_absent (toUserId unknown_to_malformed)"
      "amount unknown_to_malformed = JUndefined \<or> truthy (amount unknown_to_malformed)"
    by (simp_all add: unknown_to_malformed_def string_or_absent_def)
  have i: "string_or_absent (fromUserId ?i)" "string_or_absent (toUserId ?i)"
      "amount ?i = JUndefined \<or> truthy (amount ?i)"
    by (simp_all add: transfer150_def string_or_absent_def)
  have fb: "first_violated_of (enforced env0 seeded unknown_to_bob) = Some SourceNotFound"
      "lookups_return env0 seeded unknown_to_bob"
    by code_simp+
  have fm: "first_violated_of (take 3 (enforced env0 seeded unknown_to_malformed)) = None"
      "\<not> lookups_return env0 seeded unknown_to_malformed"
    by code_simp+
  have fi: "first_violated_of (enforced env0 seeded ?i) = Some InsufficientFunds"
      "lookups_return env0 seeded ?i"
    by code_simp+
  from first_failure_wins [OF b ok, of env0] first_failure_wins [OF m ok, of env0]
    first_failure_wins [OF i ok, of env0] fb fm fi
  show ?thesis
    by simp
qed

text \<open>
  Claim C2 as stated fails in four places. At an unknown source with a malformed
  destination the first precondition violated is the fourth, SourceNotFound, but the
  lookup of the destination throws before the result of the first lookup is tested:
  OperationalFailure. At the amount zero and at the amount \<open>Infinity\<close> the first
  precondition violated is the second, InvalidAmount, and the handler reports MissingField
  and InsufficientFunds. At the source identifier \<^verbatim>\<open>false\<close>, which the body has, the
  handler reports MissingField.
\<close>

theorem first_failure_counterexample:
  "first_violated env0 seeded unknown_to_malformed = Some SourceNotFound
   \<and> kind_of (fst (transfer env0 seeded unknown_to_malformed)) = Some OperationalFailure
   \<and> first_violated env0 seeded (transfer150\<lparr>amount := JNum (Finite 0)\<rparr>) = Some InvalidAmount
   \<and> kind_of (fst (transfer env0 seeded (transfer150\<lparr>amount := JNum (Finite 0)\<rparr>)))
       = Some MissingField
   \<and> first_violated env0 seeded (transfer150\<lparr>amount := JNum PosInfinity\<rparr>) = Some InvalidAmount
   \<and> kind_of (fst (transfer env0 seeded (transfer150\<lparr>amount := JNum PosInfinity\<rparr>)))
       = Some InsufficientFunds
   \<and> first_violated env0 seeded (transfer150\<lparr>fromUserId := JBool False\<rparr>) = Some SourceNotFound
   \<and> kind_of (fst (transfer env0 seeded (transfer150\<lparr>fromUserId := JBool False\<rparr>)))
       = Some MissingField"
  by code_simp

section \<open>A failure of the second save\<close>

text \<open>
  Claim C7, as amended. In a transfer that passes every precondition, when the save of the
  source succeeds and the save of the destination throws, the handler answers 500 with the
  message of that error. It has made the two lookups and the two saves and no further
  store call: the collection holds the source debited by the amount, and the destination,
  when it is a different document from the source, as it was.
\<close>

theorem no_rollback:
  assumes v: "\<not> missing_field req" "\<not> invalid_amount req" "\<not> self_transfer req"
    and src: "source_lookup e st req = Inr (Some fu)"
    and dst: "destination_lookup e st req = Inr (Some tu)"
    and amt: "amount req = JNum amt" and enough: "\<not> num_lt (balance fu) amt"
    and w1: "write_error e st 2 (debited fu amt) = None"
    and w2: "write_error e st 3 (credited tu amt) = Some err"
  shows "fst (transfer e st req) =
           \<lparr>status = 500, body = ErrorBody ''An error occurred during the transfer'' err\<rparr>
         \<and> kind_of (fst (transfer e st req)) = Some OperationalFailure
         \<and> calls (snd (transfer e st req)) =
             calls st @ [FindById (fromUserId req), FindById (toUserId req),
                         Save (debited fu amt), Save (credited tu amt)]
         \<and> users (snd (transfer e st req)) = put (debited fu amt) (users st)
         \<and> resolve e (snd (transfer e st req)) (fromUserId req) = Some (debited fu amt)
         \<and> (uid fu \<noteq> uid tu \<longrightarrow>
              resolve e (snd (transfer e st req)) (toUserId req) = Some tu)"
proof -
  from transfer_validated [OF v] amt
  have t: "transfer e st req = transfer_try e st (fromUserId req) (toUserId req) amt"
    by auto
  have r: "transfer e st req =
      (caught err,
       st\<lparr>calls := calls st @ [FindById (fromUserId req), FindById (toUserId req),
                               Save (debited fu amt), Save (credited tu amt)],
          users := put (debited fu amt) (users st)\<rparr>)"
    using enough w1 w2 by (simp add: t transfer_try_found [OF src dst])
  from src obtain fid where f: "castObjectId e (fromUserId req) = Inr fid"
      "find (\<lambda>u. uid u = fid) (users st) = Some fu"
    by (auto simp: source_lookup_Inr)
  from dst obtain tid where d: "castObjectId e (toUserId req) = Inr tid"
      "find (\<lambda>u. uid u = tid) (users st) = Some tu"
    by (auto simp: destination_lookup_Inr)
  from find_uid [OF f(2)] have fid: "fid = uid (debited fu amt)"
    by (simp add: debited_def)
  have "resolve e (snd (transfer e st req)) (fromUserId req) = Some (debited fu amt)"
    using f(2) unfolding fid by (simp add: r resolve_def f(1) fid put_def find_map_same)
  moreover have "resolve e (snd (transfer e st req)) (toUserId req) = Some tu"
    if two: "uid fu \<noteq> uid tu"
  proof -
    from find_uid [OF d(2)] two have "tid \<noteq> uid (debited fu amt)"
      by (auto simp: debited_def)
    then show ?thesis
      by (simp add: r resolve_def d put_def find_map_other)
  qed
  ultimately show ?thesis
    by (simp add: r caught_def kind_of_def)
qed

text \<open>
  The theorem at the transfer of 150 from Alice to Bob when the fourth store call, the save
  of Bob, fails: Alice is left with 850, Bob with 500.
\<close>

theorem no_rollback_witness:
  "fst (transfer (env_fail 3) seeded transfer150) =
     \<lparr>status = 500,
      body = ErrorBody ''An error occurred during the transfer'' ''connection lost''\<rparr>
   \<and> users (snd (transfer (env_fail 3) seeded transfer150)) =
       [alice\<lparr>balance := Finite 850\<rparr>, bob]
   \<and> resolve (env_fail 3) (snd (transfer (env_fail 3) seeded transfer150))
       (toUserId transfer150) = Some bob"
proof -
  let ?e = "env_fail 3"
  have l: "source_lookup ?e seeded transfer150 = Inr (Some alice)"
      "destination_lookup ?e seeded transfer150 = Inr (Some bob)"
    by (simp_all add: source_lookup_def destination_lookup_def findById_def env_fail_def env0_def
          seeded_def transfer150_def castHex24_def isHex_def lowerHex_def alice_def bob_def)
  have h: "amount transfer150 = JNum (Finite 150)"
      "\<not> num_lt (balance alice) (Finite 150)"
      "write_error ?e seeded 2 (debited alice (Finite 150)) = None"
      "write_error ?e seeded 3 (credited bob (Finite 150)) = Some ''connection lost''"
    by (simp_all add: alice_def bob_def transfer150_def write_error_def debited_def credited_def
          num_sub_def seeded_arith valid_balance_def env_fail_def env0_def seeded_def)
  have two: "uid alice \<noteq> uid bob"
    by (simp add: alice_def bob_def)
  from no_rollback [OF transfer150_valid [unfolded transfer150_amount] l h] two show ?thesis
    by (simp add: put_def debited_def seeded_def alice_def bob_def num_sub_def seeded_arith)
qed

text \<open>
  Claim C7 as stated fails when the two identifiers are two spellings of one ObjectId:
  they are distinct, both lookups return Alice, the first save succeeds and the second
  fails, and the account the destination identifier names holds 850, not the 1000 it
  held.
\<close>

theorem same_document_counterexample:
  "\<not> missing_field aliased \<and> \<not> invalid_amount aliased
   \<and> fromUserId aliased \<noteq> toUserId aliased
   \<and> source_lookup (env_fail 3) lettered aliased =
       Inr (Some (alice\<lparr>uid := ''00000000000000000000000a''\<rparr>))
   \<and> destination_lookup (env_fail 3) lettered aliased =
       Inr (Some (alice\<lparr>uid := ''00000000000000000000000a''\<rparr>))
   \<and> fst (transfer (env_fail 3) lettered aliased) =
       \<lparr>status = 500,
        body = ErrorBody ''An error occurred during the transfer'' ''connection lost''\<rparr>
   \<and> users (snd (transfer (env_fail 3) lettered aliased)) =
       [alice\<lparr>uid := ''00000000000000000000000a'', balance := Finite 850\<rparr>, bob]
   \<and> resolve (env_fail 3) (snd (transfer (env_fail 3) lettered aliased)) (toUserId aliased) =
       Some (alice\<lparr>uid := ''00000000000000000000000a'', balance := Finite 850\<rparr>)"
  by code_simp

end
